theory Spec2Isabelle
  imports Complex_Main "HOL-Library.Char_ord" "HOL-Library.List_Lexorder" "HOL-Library.AList"
    "HOL-Library.Multiset"
begin

section \<open>JavaScript strings\<close>

text \<open>
  A string is a list of code units, here restricted to the code units below 256.
  \<open>String.prototype.trim\<close> strips the white space and line terminators of ECMAScript;
  below 256 these are TAB, LF, VT, FF, CR, SPACE and NBSP.
\<close>

definition isWhiteSpace :: "char \<Rightarrow> bool" where
  "isWhiteSpace c \<longleftrightarrow>
     c = CHR 0x09 \<or> c = CHR 0x0A \<or> c = CHR 0x0B \<or> c = CHR 0x0C \<or> c = CHR 0x0D \<or>
     c = CHR 0x20 \<or> c = CHR 0xA0"

definition trim :: "string \<Rightarrow> string" where
  "trim s = rev (dropWhile isWhiteSpace (rev (dropWhile isWhiteSpace s)))"

definition startsWith :: "string \<Rightarrow> string \<Rightarrow> bool" where
  "startsWith s p \<longleftrightarrow> take (length p) s = p"

definition endsWith :: "string \<Rightarrow> string \<Rightarrow> bool" where
  "endsWith s p \<longleftrightarrow> length p \<le> length s \<and> drop (length s - length p) s = p"

text \<open>
  \<open>s.substring(a, b)\<close>: both indices are clamped to \<open>0..length\<close> and swapped when
  \<open>a > b\<close>; \<open>s.substring(a)\<close> runs to the end of the string.
\<close>

definition substring :: "string \<Rightarrow> int \<Rightarrow> int \<Rightarrow> string" where
  "substring s a b =
     (let n = int (length s);
          a' = max 0 (min a n);
          b' = max 0 (min b n);
          lo = min a' b';
          hi = max a' b'
      in take (nat (hi - lo)) (drop (nat lo) s))"

definition substringFrom :: "string \<Rightarrow> int \<Rightarrow> string" where
  "substringFrom s a = substring s a (int (length s))"

text \<open>\<open>indexOf\<close> and \<open>lastIndexOf\<close> of a single character; \<open>-1\<close> when it is absent.\<close>

primrec indexOf :: "string \<Rightarrow> char \<Rightarrow> int" where
  "indexOf [] c = - 1"
| "indexOf (x # xs) c =
     (if x = c then 0 else (let i = indexOf xs c in if i = - 1 then - 1 else i + 1))"

primrec lastIndexOf :: "string \<Rightarrow> char \<Rightarrow> int" where
  "lastIndexOf [] c = - 1"
| "lastIndexOf (x # xs) c =
     (let i = lastIndexOf xs c in if i = - 1 then (if x = c then 0 else - 1) else i + 1)"

section \<open>The response normalizer\<close>

text \<open>
  \<open>ExamSimulatorService.cleanJsonResponse\<close>: trim, drop a leading fence (tagged
  \<open>json\<close> or bare), drop a trailing fence, trim, slice from the first opener to the
  last matching closer, trim.
\<close>

definition cleanJsonResponse :: "string \<Rightarrow> string" where
  "cleanJsonResponse text =
     (let cleaned0 = trim text;
          cleaned1 =
            (if startsWith cleaned0 ''```json'' then substringFrom cleaned0 7
             else if startsWith cleaned0 ''```'' then substringFrom cleaned0 3
             else cleaned0);
          cleaned2 =
            (if endsWith cleaned1 ''```'' then substring cleaned1 0 (int (length cleaned1) - 3)
             else cleaned1);
          cleaned3 = trim cleaned2;
          openBrace = indexOf cleaned3 CHR ''{'';
          openBracket = indexOf cleaned3 CHR ''['';
          closeBrace = lastIndexOf cleaned3 CHR ''}'';
          closeBracket = lastIndexOf cleaned3 CHR '']'';
          (startIndex, endIndex) =
            (if openBrace \<noteq> - 1 \<and> (openBracket = - 1 \<or> openBrace < openBracket)
             then (openBrace, closeBrace)
             else if openBracket \<noteq> - 1 then (openBracket, closeBracket)
             else (- 1, - 1));
          cleaned4 =
            (if startIndex \<noteq> - 1 \<and> endIndex \<noteq> - 1 \<and> endIndex > startIndex
             then substring cleaned3 startIndex (endIndex + 1)
             else cleaned3)
      in trim cleaned4)"

text \<open>\<open>LearningRoadService.cleanJsonResponse\<close> has the same body, statement for statement.\<close>

definition LearningRoadService_cleanJsonResponse :: "string \<Rightarrow> string" where
  "LearningRoadService_cleanJsonResponse text =
     (let cleaned0 = trim text;
          cleaned1 =
            (if startsWith cleaned0 ''```json'' then substringFrom cleaned0 7
             else if startsWith cleaned0 ''```'' then substringFrom cleaned0 3
             else cleaned0);
          cleaned2 =
            (if endsWith cleaned1 ''```'' then substring cleaned1 0 (int (length cleaned1) - 3)
             else cleaned1);
          cleaned3 = trim cleaned2;
          openBrace = indexOf cleaned3 CHR ''{'';
          openBracket = indexOf cleaned3 CHR ''['';
          closeBrace = lastIndexOf cleaned3 CHR ''}'';
          closeBracket = lastIndexOf cleaned3 CHR '']'';
          (startIndex, endIndex) =
            (if openBrace \<noteq> - 1 \<and> (openBracket = - 1 \<or> openBrace < openBracket)
             then (openBrace, closeBrace)
             else if openBracket \<noteq> - 1 then (openBracket, closeBracket)
             else (- 1, - 1));
          cleaned4 =
            (if startIndex \<noteq> - 1 \<and> endIndex \<noteq> - 1 \<and> endIndex > startIndex
             then substring cleaned3 startIndex (endIndex + 1)
             else cleaned3)
      in trim cleaned4)"

section \<open>The difficulty table\<close>

record DifficultyConfig =
  label :: string
  cfg_description :: string
  complexity :: string
  cognitiveLevel :: string

definition foundationConfig :: DifficultyConfig where
  "foundationConfig =
     \<lparr>label = ''Foundation'',
      cfg_description = ''Basic understanding - covers fundamental concepts'',
      complexity = ''Focus on recall and basic understanding. Questions should test foundational knowledge and basic concepts.'',
      cognitiveLevel = ''Remember and Understand''\<rparr>"

definition configs :: "(int \<times> DifficultyConfig) list" where
  "configs =
   [(1, foundationConfig),
    (2, \<lparr>label = ''Beginner'',
         cfg_description = ''Slightly more challenging - requires basic application'',
         complexity = ''Increase complexity by 15-20%. Include basic application questions and simple problem-solving.'',
         cognitiveLevel = ''Understand and Apply''\<rparr>),
    (3, \<lparr>label = ''Intermediate'',
         cfg_description = ''Moderate difficulty - requires deeper understanding'',
         complexity = ''Increase complexity by 35-40%. Require deeper understanding, analysis, and multi-step reasoning.'',
         cognitiveLevel = ''Apply and Analyze''\<rparr>),
    (4, \<lparr>label = ''Advanced'',
         cfg_description = ''Challenging - requires critical thinking'',
         complexity = ''Increase complexity by 55-60%. Include critical thinking, synthesis of concepts, and complex problem-solving.'',
         cognitiveLevel = ''Analyze and Evaluate''\<rparr>),
    (5, \<lparr>label = ''Expert'',
         cfg_description = ''Very challenging - requires mastery'',
         complexity = ''Increase complexity by 75-80%. Require mastery-level understanding, creative application, and expert-level reasoning.'',
         cognitiveLevel = ''Evaluate and Create''\<rparr>),
    (6, \<lparr>label = ''Master'',
         cfg_description = ''Extremely challenging - professional level'',
         complexity = ''Increase complexity by 90-95%. Professional-level questions requiring deep expertise and innovative thinking.'',
         cognitiveLevel = ''Create and Innovate''\<rparr>),
    (7, \<lparr>label = ''Genius'',
         cfg_description = ''Ultimate challenge - if you ace this, you'' @ [CHR 0x27] @ ''re an expert'',
         complexity = ''Maximum complexity (100%+). If someone scores 80%+ here, they should be able to ace any standard exam on this topic.'',
         cognitiveLevel = ''Master and Innovate''\<rparr>)]"

text \<open>
  \<open>configs[level] || configs[1]\<close>: every entry of the table is an object, hence truthy,
  so the right operand, the entry of level 1, is taken exactly when the table has no entry
  for \<open>level\<close>.
\<close>

definition getDifficultyConfig :: "int \<Rightarrow> DifficultyConfig" where
  "getDifficultyConfig level =
     (case map_of configs level of Some c \<Rightarrow> c | None \<Rightarrow> foundationConfig)"


section \<open>JavaScript values\<close>

text \<open>
  Numbers are the finite values (taken as rationals: every double is one), \<open>NaN\<close> and the
  two infinities; negative zero is not told from zero. Values are those \<open>JSON.parse\<close> can
  return, and \<open>undefined\<close>; an object is the list of its own properties in order, each
  name occurring once.
\<close>

datatype number = Finite rat | NaN | PosInfinity | NegInfinity

datatype json =
    JUndefined
  | JNull
  | JBool bool
  | JNum number
  | JStr string
  | JArr "json list"
  | JObj "(string \<times> json) list"

text \<open>
  What \<open>throw\<close> can raise: an \<open>Error\<close> instance with its message, or any other value.
  An error raised by the runtime or by the store stands with its name for a message.
\<close>

datatype thrown = Error string | Thrown json

fun truthy :: "json \<Rightarrow> bool" where
  "truthy JUndefined = False"
| "truthy JNull = False"
| "truthy (JBool b) = b"
| "truthy (JNum (Finite r)) = (r \<noteq> 0)"
| "truthy (JNum NaN) = False"
| "truthy (JNum PosInfinity) = True"
| "truthy (JNum NegInfinity) = True"
| "truthy (JStr s) = (s \<noteq> [])"
| "truthy (JArr xs) = True"
| "truthy (JObj kvs) = True"

text \<open>\<open>a || b\<close>\<close>

definition or_else :: "json \<Rightarrow> json \<Rightarrow> json" where
  "or_else a b = (if truthy a then a else b)"

definition nullish :: "json \<Rightarrow> bool" where
  "nullish v \<longleftrightarrow> v = JUndefined \<or> v = JNull"

text \<open>
  \<open>v.k\<close> for a \<open>v\<close> that is neither \<open>null\<close> nor \<open>undefined\<close> (reading a property of
  those throws a \<open>TypeError\<close>, which the callers below test first with \<open>nullish\<close>).
  The names read in this program (\<open>title\<close>, \<open>questions\<close>, \<open>id\<close>, \<open>points\<close>,
  \<open>steps\<close>, ...) are not properties of the array, string, number or boolean prototypes,
  so on such values the read gives \<open>undefined\<close>.
\<close>

fun getProp :: "json \<Rightarrow> string \<Rightarrow> json" where
  "getProp (JObj kvs) k = (case map_of kvs k of Some v \<Rightarrow> v | None \<Rightarrow> JUndefined)"
| "getProp v k = JUndefined"

definition digitChar :: "nat \<Rightarrow> char" where
  "digitChar d = ''0123456789'' ! (d mod 10)"

fun showNat :: "nat \<Rightarrow> string" where
  "showNat n = (if n < 10 then [digitChar n] else showNat (n div 10) @ [digitChar (n mod 10)])"

declare showNat.simps [simp del]

text \<open>
  The decimal rendering of an integer, as a template literal interpolates it. This is the
  rendering of JavaScript for magnitudes below \<open>10^21\<close>, which the levels, the positions
  and the clock readings of a run stay far below; beyond, JavaScript writes an exponent.
\<close>

definition showInt :: "int \<Rightarrow> string" where
  "showInt i = (if i < 0 then CHR ''-'' # showNat (nat (- i)) else showNat (nat i))"

text \<open>
  The own enumerable properties that \<open>{...v}\<close> copies: those of an object, the indexed
  elements of an array, the indexed characters of a string, none otherwise.
\<close>

fun spread :: "json \<Rightarrow> (string \<times> json) list" where
  "spread (JObj kvs) = kvs"
| "spread (JArr xs) = zip (map showNat [0..<length xs]) xs"
| "spread (JStr s) = zip (map showNat [0..<length s]) (map (\<lambda>c. JStr [c]) s)"
| "spread v = []"

text \<open>A later property of an object literal replaces an earlier one in place, or is added last.\<close>

definition set_prop :: "(string \<times> json) list \<Rightarrow> string \<Rightarrow> json \<Rightarrow> (string \<times> json) list" where
  "set_prop kvs k v = AList.update k v kvs"

section \<open>The environment\<close>

text \<open>
  The collaborators of the program that are not its own code. \<open>getOssResponse k\<close> is the
  outcome of the \<open>k\<close>-th text-completion request of a run, counted from 0: the text, or what
  the capability throws. The prompt is built only to be sent with the request, so a stub that
  answers by prompt is covered by one that answers by request number. \<open>JSON_parse\<close> is
  \<open>None\<close> where \<open>JSON.parse\<close> throws a \<open>SyntaxError\<close>. \<open>Date_now k\<close> is the \<open>k\<close>-th
  reading of the clock, in milliseconds, and \<open>toISOString\<close> renders such an instant.
  A \<open>Date\<close> object is represented by its ISO rendering: \<open>new Date()\<close> is
  \<open>toISOString\<close> of a clock reading, \<open>d.toISOString()\<close> and \<open>new Date(s)\<close> change
  nothing.
\<close>

type_synonym date = string

record env =
  getOssResponse :: "nat \<Rightarrow> thrown + string"
  JSON_parse :: "string \<Rightarrow> json option"
  JSON_stringify :: "json \<Rightarrow> string"
  Date_now :: "nat \<Rightarrow> int"
  toISOString :: "int \<Rightarrow> string"

text \<open>What a run has done so far: requests issued, clock readings taken, delays waited.\<close>

record effects =
  requests :: nat
  clock_reads :: nat
  delays :: nat

definition no_effects :: effects where
  "no_effects = \<lparr>requests = 0, clock_reads = 0, delays = 0\<rparr>"

section \<open>The exam simulator\<close>

text \<open>
  The records of \<open>examSimulatorService.ts\<close>. The fields of an exam that come out of the
  parsed response hold whatever value was parsed. The interface declares a \<open>score\<close>; the
  generator builds its exams without one (\<open>None\<close>) and the exam view sets it on the exam
  it holds when the exam is submitted.
\<close>

record SimulatorExam =
  exam_id :: string
  exam_title :: json
  exam_description :: json
  exam_instructions :: json
  exam_questions :: json
  exam_totalPoints :: json
  exam_estimatedTime :: "int option"
  exam_difficultyLevel :: int
  exam_difficultyLabel :: string
  exam_createdAt :: date
  exam_score :: "number option"

record ExamSeries =
  series_id :: string
  series_topic :: string
  series_description :: string
  series_exams :: "SimulatorExam list"
  series_totalExams :: int
  series_createdAt :: date

record SimulatorSettings =
  numberOfExams :: int
  questionsPerExam :: "int option"
  timePerExam :: "int option"

text \<open>
  An uploaded file: its name, its declared type, and what \<open>fileToBase64\<close> gives for it
  (the encoded content, or the reader's error).
\<close>

record File =
  file_name :: string
  file_type :: string
  fileToBase64 :: "thrown + string"

text \<open>
  \<open>Math.round(100 / settings.questionsPerExam)\<close>: \<open>NaN\<close> when the setting is absent,
  \<open>Infinity\<close> when it is 0; otherwise the quotient, taken exactly, rounded half up.
\<close>

definition defaultPoints :: "SimulatorSettings \<Rightarrow> number" where
  "defaultPoints settings =
     (case questionsPerExam settings of
        None \<Rightarrow> NaN
      | Some n \<Rightarrow>
          if n = 0 then PosInfinity
          else Finite (of_int \<lfloor>(100 :: rat) / of_int n + 1 / 2\<rfloor>))"

text \<open>
  The callback of \<open>examData.questions.map\<close>:
  \<open>{...q, id: q.id || `q${level}_${index + 1}`, points: q.points || Math.round(...)}\<close>.
  Reading \<open>q.id\<close> of \<open>null\<close> throws: \<open>None\<close>.
\<close>

definition mapQuestion :: "SimulatorSettings \<Rightarrow> int \<Rightarrow> nat \<Rightarrow> json \<Rightarrow> json option" where
  "mapQuestion settings level index q =
     (if nullish q then None
      else Some (JObj
        (set_prop
          (set_prop (spread q) ''id''
            (or_else (getProp q ''id'')
               (JStr (''q'' @ showInt level @ ''_'' @ showInt (int index + 1)))))
          ''points''
          (or_else (getProp q ''points'') (JNum (defaultPoints settings))))))"

fun mapQuestions :: "SimulatorSettings \<Rightarrow> int \<Rightarrow> nat \<Rightarrow> json list \<Rightarrow> json list option" where
  "mapQuestions settings level index [] = Some []"
| "mapQuestions settings level index (q # qs) =
     (case mapQuestion settings level index q of
        None \<Rightarrow> None
      | Some q' \<Rightarrow>
          (case mapQuestions settings level (Suc index) qs of
             None \<Rightarrow> None
           | Some qs' \<Rightarrow> Some (q' # qs')))"

text \<open>
  The \<open>try\<close> block of one level: parse the cleaned text and build the exam. \<open>None\<close> where
  the block throws (the text does not parse, the parsed value is \<open>null\<close>, its
  \<open>questions\<close> is not an array, or a question is \<open>null\<close>); the \<open>catch\<close> then builds the
  fallback. The clock is read for the id before the questions are mapped and for
  \<open>createdAt\<close> after.
\<close>

definition tryBuildExam ::
  "env \<Rightarrow> string \<Rightarrow> SimulatorSettings \<Rightarrow> int \<Rightarrow> int \<Rightarrow> string \<Rightarrow> effects
     \<Rightarrow> SimulatorExam option \<times> effects" where
  "tryBuildExam e seriesTopic settings examTime level cleanedText fx =
     (case JSON_parse e cleanedText of
        None \<Rightarrow> (None, fx)
      | Some examData \<Rightarrow>
          if nullish examData then (None, fx)
          else
            (let difficultyConfig = getDifficultyConfig level;
                 t0 = Date_now e (clock_reads fx);
                 fx1 = fx\<lparr>clock_reads := clock_reads fx + 1\<rparr>
             in case getProp examData ''questions'' of
                  JArr qs \<Rightarrow>
                    (case mapQuestions settings level 0 qs of
                       None \<Rightarrow> (None, fx1)
                     | Some qs' \<Rightarrow>
                         (Some
                           \<lparr>exam_id = ''exam_'' @ showInt t0 @ ''_'' @ showInt level,
                            exam_title = or_else (getProp examData ''title'')
                              (JStr (''Level '' @ showInt level @ '': '' @ label difficultyConfig
                                     @ '' - '' @ seriesTopic)),
                            exam_description = or_else (getProp examData ''description'')
                              (JStr (cfg_description difficultyConfig)),
                            exam_instructions = or_else (getProp examData ''instructions'')
                              (JStr (''This is a Level '' @ showInt level @ '' exam. ''
                                     @ cfg_description difficultyConfig)),
                            exam_questions = JArr qs',
                            exam_totalPoints = or_else (getProp examData ''totalPoints'')
                              (JNum (Finite 100)),
                            exam_estimatedTime = Some examTime,
                            exam_difficultyLevel = level,
                            exam_difficultyLabel = label difficultyConfig,
                            exam_createdAt = toISOString e (Date_now e (clock_reads fx1)),
                            exam_score = None\<rparr>,
                          fx1\<lparr>clock_reads := clock_reads fx1 + 1\<rparr>))
                | _ \<Rightarrow> (None, fx1)))"

text \<open>The \<open>catch\<close> block of one level: the single-question fallback exam.\<close>

definition fallbackExam ::
  "env \<Rightarrow> string \<Rightarrow> SimulatorSettings \<Rightarrow> int \<Rightarrow> effects \<Rightarrow> SimulatorExam \<times> effects" where
  "fallbackExam e seriesTopic settings level fx =
     (let difficultyConfig = getDifficultyConfig level
      in (\<lparr>exam_id = ''fallback_exam_'' @ showInt (Date_now e (clock_reads fx)) @ ''_''
                      @ showInt level,
           exam_title = JStr (''Level '' @ showInt level @ '': '' @ label difficultyConfig
                              @ '' - '' @ seriesTopic),
           exam_description = JStr (cfg_description difficultyConfig),
           exam_instructions = JStr (''This is a Level '' @ showInt level @ '' practice exam.''),
           exam_questions = JArr
             [JObj [(''id'', JStr (''fallback_q'' @ showInt level @ ''_1'')),
                    (''question'', JStr (''Sample Level '' @ showInt level @ '' question for ''
                                         @ seriesTopic)),
                    (''type'', JStr ''multiple-choice''),
                    (''options'', JArr [JStr ''Option A'', JStr ''Option B'', JStr ''Option C'',
                                        JStr ''Option D'']),
                    (''correctAnswer'', JNum (Finite 0)),
                    (''points'', JNum (Finite 100)),
                    (''explanation'', JStr ''This is a fallback question due to parsing error.''),
                    (''difficulty'', JStr ''Medium'')]],
           exam_totalPoints = JNum (Finite 100),
           exam_estimatedTime = timePerExam settings,
           exam_difficultyLevel = level,
           exam_difficultyLabel = label difficultyConfig,
           exam_createdAt = toISOString e (Date_now e (clock_reads fx + 1)),
           exam_score = None\<rparr>,
          fx\<lparr>clock_reads := clock_reads fx + 2\<rparr>))"

text \<open>One response turned into the exam of its level: the \<open>try\<close>, and the \<open>catch\<close> behind it.\<close>

definition generateExam ::
  "env \<Rightarrow> string \<Rightarrow> SimulatorSettings \<Rightarrow> int \<Rightarrow> int \<Rightarrow> string \<Rightarrow> effects
     \<Rightarrow> SimulatorExam \<times> effects" where
  "generateExam e seriesTopic settings examTime level text fx =
     (case tryBuildExam e seriesTopic settings examTime level (cleanJsonResponse text) fx of
        (Some exam, fx') \<Rightarrow> (exam, fx')
      | (None, fx') \<Rightarrow> fallbackExam e seriesTopic settings level fx')"

text \<open>
  The loop \<open>for (let level = 1; level <= settings.numberOfExams; level++)\<close>, entered at
  \<open>level\<close> with the exams pushed so far. A request that throws leaves the loop with what
  was thrown.
\<close>

function generateLevels ::
  "env \<Rightarrow> string \<Rightarrow> SimulatorSettings \<Rightarrow> int \<Rightarrow> int \<Rightarrow> SimulatorExam list \<Rightarrow> effects
     \<Rightarrow> (thrown + SimulatorExam list) \<times> effects" where
  "generateLevels e seriesTopic settings examTime level exams fx =
     (if level \<le> numberOfExams settings then
        (case getOssResponse e (requests fx) of
           Inl err \<Rightarrow> (Inl err, fx\<lparr>requests := requests fx + 1\<rparr>)
         | Inr text \<Rightarrow>
             (let fx1 = fx\<lparr>requests := requests fx + 1\<rparr>;
                  (exam, fx2) = generateExam e seriesTopic settings examTime level text fx1;
                  fx3 = (if level < numberOfExams settings
                         then fx2\<lparr>delays := delays fx2 + 1\<rparr> else fx2)
              in generateLevels e seriesTopic settings examTime (level + 1) (exams @ [exam]) fx3))
      else (Inr exams, fx))"
  by pat_completeness auto
termination
  by (relation "measure (\<lambda>(e, seriesTopic, settings, examTime, level, exams, fx).
        nat (numberOfExams settings + 1 - level))") auto

declare generateLevels.simps [simp del]

text \<open>
  The files are read once, before the loop; the first one that cannot be read aborts with an
  \<open>Error\<close> naming it. The encoded parts are collected and not used afterwards.
\<close>

fun processFiles :: "File list \<Rightarrow> thrown + string list" where
  "processFiles [] = Inr []"
| "processFiles (f # fs) =
     (case fileToBase64 f of
        Inl err \<Rightarrow>
          Inl (Error (''Failed to process file '' @ file_name f
                      @ ''. Please ensure the file is not corrupted and try again.''))
      | Inr base64Data \<Rightarrow>
          (case processFiles fs of
             Inl err \<Rightarrow> Inl err
           | Inr contentParts \<Rightarrow> Inr (base64Data # contentParts)))"

text \<open>The outer \<open>catch\<close>: an \<open>Error\<close> is thrown on, anything else is replaced.\<close>

fun rethrow :: "thrown \<Rightarrow> thrown" where
  "rethrow (Error m) = Error m"
| "rethrow (Thrown v) =
     Error ''An unexpected error occurred while generating the exam series. Please check your files and try again.''"

definition generateExamSeries ::
  "env \<Rightarrow> string \<Rightarrow> string \<Rightarrow> File list \<Rightarrow> SimulatorSettings \<Rightarrow> int
     \<Rightarrow> (thrown + ExamSeries) \<times> effects" where
  "generateExamSeries e seriesTopic examContentDescription files settings examTime =
     (if trim examContentDescription = [] \<and> length files = 0 then
        (Inl (Error ''Please provide either an exam description or upload reference materials.''),
         no_effects)
      else
        (case processFiles files of
           Inl err \<Rightarrow> (Inl (rethrow err), no_effects)
         | Inr contentParts \<Rightarrow>
             (case generateLevels e seriesTopic settings examTime 1 [] no_effects of
                (Inl err, fx) \<Rightarrow> (Inl (rethrow err), fx)
              | (Inr exams, fx) \<Rightarrow>
                  (Inr \<lparr>series_id = ''series_'' @ showInt (Date_now e (clock_reads fx)),
                        series_topic = seriesTopic,
                        series_description =
                          (if examContentDescription \<noteq> [] then examContentDescription
                           else ''Progressive exam series with ''
                                @ showInt (numberOfExams settings)
                                @ '' levels of increasing difficulty''),
                        series_exams = exams,
                        series_totalExams = numberOfExams settings,
                        series_createdAt = toISOString e (Date_now e (clock_reads fx + 1))\<rparr>,
                   fx\<lparr>clock_reads := clock_reads fx + 2\<rparr>))))"


section \<open>The learning road\<close>




section \<open>The persistence store\<close>

text \<open>
  A table is the list of its rows in the order of their primary key \<open>id\<close>, which is how the
  store iterates them. \<open>put\<close> inserts or replaces by key, \<open>get\<close> finds by key,
  \<open>delete\<close> removes by key.
\<close>

definition table_put :: "('r \<Rightarrow> string) \<Rightarrow> 'r \<Rightarrow> 'r list \<Rightarrow> 'r list" where
  "table_put key r t = insort_key key r (filter (\<lambda>x. key x \<noteq> key r) t)"

definition table_get :: "('r \<Rightarrow> string) \<Rightarrow> string \<Rightarrow> 'r list \<Rightarrow> 'r option" where
  "table_get key k t = find (\<lambda>x. key x = k) t"

definition table_delete :: "('r \<Rightarrow> string) \<Rightarrow> string \<Rightarrow> 'r list \<Rightarrow> 'r list" where
  "table_delete key k t = filter (\<lambda>x. key x \<noteq> k) t"

record StoredExamSeries =
  ss_id :: string
  ss_topic :: string
  ss_description :: string
  ss_totalExams :: int
  ss_settings :: SimulatorSettings
  ss_time :: int
  ss_createdAt :: string
  ss_updatedAt :: string

record StoredExam =
  se_id :: string
  se_seriesId :: string
  se_title :: json
  se_description :: json
  se_instructions :: json
  se_totalPoints :: json
  se_estimatedTime :: "int option"
  se_difficultyLevel :: int
  se_difficultyLabel :: string
  se_questionsData :: string
  se_score :: "number option"
  se_completedAt :: "string option"
  se_timeTaken :: "number option"
  se_createdAt :: string

record StoredLearningPath =
  lp_id :: json
  lp_topic :: json
  lp_description :: json
  lp_totalEstimatedTime :: json
  lp_difficulty :: json
  lp_stepsData :: json
  lp_createdAt :: json

text \<open>
  The tables of \<open>ExamDatabase\<close> that the operations below touch (\<open>practiceExams\<close> is
  left out). The learning paths are saved from an untyped value, so their table is keyed by
  whatever value the \<open>id\<close> is. Every operation of the store is taken to succeed; none is
  cut short by a quota or a closed connection.
\<close>

record database =
  examSeries :: "StoredExamSeries list"
  simulatorExams :: "StoredExam list"
  learningPaths :: "(json \<times> StoredLearningPath) list"

definition empty_database :: database where
  "empty_database = \<lparr>examSeries = [], simulatorExams = [], learningPaths = []\<rparr>"

text \<open>
  The row that \<open>saveExamSeries\<close> writes for one exam of the series: \<open>score\<close>,
  \<open>completedAt\<close> and \<open>timeTaken\<close> are written \<open>undefined\<close>, whatever the exam holds.
\<close>

definition storedExam :: "env \<Rightarrow> string \<Rightarrow> SimulatorExam \<Rightarrow> StoredExam" where
  "storedExam e seriesId exam =
     \<lparr>se_id = exam_id exam,
      se_seriesId = seriesId,
      se_title = exam_title exam,
      se_description = exam_description exam,
      se_instructions = exam_instructions exam,
      se_totalPoints = exam_totalPoints exam,
      se_estimatedTime = exam_estimatedTime exam,
      se_difficultyLevel = exam_difficultyLevel exam,
      se_difficultyLabel = exam_difficultyLabel exam,
      se_questionsData = JSON_stringify e (exam_questions exam),
      se_score = None,
      se_completedAt = None,
      se_timeTaken = None,
      se_createdAt = exam_createdAt exam\<rparr>"

text \<open>
  \<open>DatabaseService.saveExamSeries\<close>, in one transaction: the series row, then one row per
  exam in the order of the series. \<open>now\<close> is the clock reading of the call.
\<close>

definition saveExamSeries ::
  "env \<Rightarrow> database \<Rightarrow> ExamSeries \<Rightarrow> SimulatorSettings \<Rightarrow> int \<Rightarrow> int \<Rightarrow> database" where
  "saveExamSeries e db series settings time now =
     db\<lparr>examSeries :=
          table_put ss_id
            \<lparr>ss_id = series_id series,
             ss_topic = series_topic series,
             ss_description = series_description series,
             ss_totalExams = series_totalExams series,
             ss_settings = settings,
             ss_time = time,
             ss_createdAt = series_createdAt series,
             ss_updatedAt = toISOString e now\<rparr>
            (examSeries db),
        simulatorExams :=
          foldl (\<lambda>t exam. table_put se_id (storedExam e (series_id series) exam) t)
            (simulatorExams db) (series_exams series)\<rparr>"

text \<open>\<open>orderBy('createdAt').reverse().toArray()\<close>\<close>

definition getAllExamSeries :: "database \<Rightarrow> StoredExamSeries list" where
  "getAllExamSeries db = rev (sort_key ss_createdAt (examSeries db))"

text \<open>
  The exam that \<open>getExamSeries\<close> rebuilds from a row; \<open>None\<close> where \<open>JSON.parse\<close>
  throws. The rebuilt exam has no \<open>score\<close>, whatever the row holds.
\<close>

definition loadedExam :: "env \<Rightarrow> StoredExam \<Rightarrow> SimulatorExam option" where
  "loadedExam e row =
     (case JSON_parse e (se_questionsData row) of
        None \<Rightarrow> None
      | Some qs \<Rightarrow>
          Some \<lparr>exam_id = se_id row,
                exam_title = se_title row,
                exam_description = se_description row,
                exam_instructions = se_instructions row,
                exam_questions = qs,
                exam_totalPoints = se_totalPoints row,
                exam_estimatedTime = se_estimatedTime row,
                exam_difficultyLevel = se_difficultyLevel row,
                exam_difficultyLabel = se_difficultyLabel row,
                exam_createdAt = se_createdAt row,
                exam_score = None\<rparr>)"

fun loadedExams :: "env \<Rightarrow> StoredExam list \<Rightarrow> SimulatorExam list option" where
  "loadedExams e [] = Some []"
| "loadedExams e (row # rows) =
     (case loadedExam e row of
        None \<Rightarrow> None
      | Some exam \<Rightarrow>
          (case loadedExams e rows of None \<Rightarrow> None | Some exams \<Rightarrow> Some (exam # exams)))"

text \<open>
  \<open>DatabaseService.getExamSeries\<close>: the series row, joined with the exam rows of that
  \<open>seriesId\<close> sorted by \<open>difficultyLevel\<close>. \<open>None\<close> is \<open>null\<close>: no such series, or an
  exception caught on the way.
\<close>

definition getExamSeries :: "env \<Rightarrow> database \<Rightarrow> string \<Rightarrow> ExamSeries option" where
  "getExamSeries e db seriesId =
     (case table_get ss_id seriesId (examSeries db) of
        None \<Rightarrow> None
      | Some series \<Rightarrow>
          (case loadedExams e
                  (sort_key se_difficultyLevel
                     (filter (\<lambda>x. se_seriesId x = seriesId) (simulatorExams db))) of
             None \<Rightarrow> None
           | Some simulatorExams' \<Rightarrow>
               Some \<lparr>series_id = ss_id series,
                     series_topic = ss_topic series,
                     series_description = ss_description series,
                     series_exams = simulatorExams',
                     series_totalExams = ss_totalExams series,
                     series_createdAt = ss_createdAt series\<rparr>))"

text \<open>\<open>DatabaseService.deleteExamSeries\<close>, in one transaction: the exam rows, then the series row.\<close>

definition deleteExamSeries :: "database \<Rightarrow> string \<Rightarrow> database" where
  "deleteExamSeries db seriesId =
     db\<lparr>simulatorExams := filter (\<lambda>x. se_seriesId x \<noteq> seriesId) (simulatorExams db),
        examSeries := table_delete ss_id seriesId (examSeries db)\<rparr>"

text \<open>
  \<open>DatabaseService.updateExamScore\<close>: \<open>Table.update(key, changes)\<close> sets the listed
  properties on the row of that key and does nothing when there is none.
\<close>

definition updateExamScore :: "env \<Rightarrow> database \<Rightarrow> string \<Rightarrow> number \<Rightarrow> number \<Rightarrow> int \<Rightarrow> database" where
  "updateExamScore e db examId score timeTaken now =
     db\<lparr>simulatorExams :=
          map (\<lambda>row. if se_id row = examId
                      then row\<lparr>se_score := Some score,
                               se_completedAt := Some (toISOString e now),
                               se_timeTaken := Some timeTaken\<rparr>
                      else row)
            (simulatorExams db)\<rparr>"





section \<open>Test doubles\<close>

text \<open>
  A serializer and a parser that know a handful of payloads, each with its JSON text, and
  an environment built on them, whose completion answers every request with a well-formed
  exam.
\<close>

definition stub_payloads :: "(json \<times> string) list" where
  \<open>stub_payloads =
    [(JArr [], ''[]''),
     (JArr [JNull], ''[null]''),
     (JObj [(''questions'', JArr [])], ''{"questions":[]}''),
     (JArr [JObj [(''step'', JNum (Finite 2))], JObj [(''step'', JNum (Finite 2))]],
      ''[{"step":2},{"step":2}]''),
     (JArr [JObj [(''step'', JNum (Finite 1))], JObj [(''step'', JNum (Finite 2))]],
      ''[{"step":1},{"step":2}]''),
     (JObj [(''steps'',
             JArr [JObj [(''step'', JNum (Finite 2))], JObj [(''step'', JNum (Finite 2))]])],
      ''{"steps":[{"step":2},{"step":2}]}'')]\<close>

definition stub_stringify :: "json \<Rightarrow> string" where
  "stub_stringify v = (case map_of stub_payloads v of Some s \<Rightarrow> s | None \<Rightarrow> ''null'')"

definition stub_parse :: "string \<Rightarrow> json option" where
  "stub_parse s = map_of (map (\<lambda>(v, s). (s, v)) stub_payloads) s"

definition stub_env :: env where
  \<open>stub_env =
    \<lparr>getOssResponse = (\<lambda>k. Inr ''{"questions":[]}''),
     JSON_parse = stub_parse,
     JSON_stringify = stub_stringify,
     Date_now = (\<lambda>k. 1000 + int k),
     toISOString = showInt\<rparr>\<close>



text \<open>An exam with a given id, level and question payload, and a series of given exams.\<close>

definition exam_fixture :: "string \<Rightarrow> int \<Rightarrow> json \<Rightarrow> SimulatorExam" where
  "exam_fixture i level qs =
     \<lparr>exam_id = i,
      exam_title = JStr ''Practice exam'',
      exam_description = JStr (cfg_description (getDifficultyConfig level)),
      exam_instructions = JStr ''Answer every question.'',
      exam_questions = qs,
      exam_totalPoints = JNum (Finite 100),
      exam_estimatedTime = Some 30,
      exam_difficultyLevel = level,
      exam_difficultyLabel = label (getDifficultyConfig level),
      exam_createdAt = ''2025-01-01T00:00:00.000Z'',
      exam_score = None\<rparr>"

definition series_fixture :: "SimulatorExam list \<Rightarrow> ExamSeries" where
  "series_fixture exams =
     \<lparr>series_id = ''s1'',
      series_topic = ''Algebra Basics'',
      series_description = ''covers linear equations'',
      series_exams = exams,
      series_totalExams = int (length exams),
      series_createdAt = ''2025-01-01T00:00:01.000Z''\<rparr>"

definition settings_fixture :: SimulatorSettings where
  "settings_fixture = \<lparr>numberOfExams = 2, questionsPerExam = None, timePerExam = None\<rparr>"

section \<open>Properties\<close>

subsection \<open>The response normalizer\<close>


lemma trim_wrap:
  assumes w1: "\<forall>c\<in>set w1. isWhiteSpace c" and w2: "\<forall>c\<in>set w2. isWhiteSpace c"
    and x: "x \<noteq> []" and h: "\<not> isWhiteSpace (hd x)" and l: "\<not> isWhiteSpace (last x)"
  shows "trim (w1 @ x @ w2) = x"
proof -
  have a: "dropWhile isWhiteSpace (w1 @ x @ w2) = x @ w2"
    using w1 x h by (cases x) (simp_all add: dropWhile_append2)
  have "rev x \<noteq> []" "\<not> isWhiteSpace (hd (rev x))"
    using x l by (simp_all add: hd_rev)
  then have c: "dropWhile isWhiteSpace (rev x) = rev x"
    by (cases "rev x") simp_all
  have "\<And>c. c \<in> set (rev w2) \<Longrightarrow> isWhiteSpace c" using w2 by simp
  then have b: "dropWhile isWhiteSpace (rev w2 @ rev x) = rev x"
    using c by (simp only: dropWhile_append2)
  show ?thesis by (simp add: trim_def a b)
qed

lemma trim_wrap0: 
  assumes x: "x \<noteq> []" and h: "\<not> isWhiteSpace (hd x)" and l: "\<not> isWhiteSpace (last x)"
  shows "trim x = x"
  using trim_wrap[of "[]" "[]" x] assms by simp

lemma indexOf_ge: "indexOf xs c = - 1 \<or> 0 \<le> indexOf xs c"
  by (induction xs) (auto simp: Let_def)

lemma lastIndexOf_snoc: "lastIndexOf (xs @ [c]) c = int (length xs)"
  by (induction xs) (auto simp: Let_def)

lemma substring_prefix: "substring (a @ b) 0 (int (length a)) = a"
  by (simp add: substring_def Let_def min_def max_def)

lemma substring_all: "substring a 0 (int (length a)) = a"
  using substring_prefix[of a "[]"] by simp

lemma substringFrom_append: "substringFrom (a @ b) (int (length a)) = b"
  by (simp add: substringFrom_def substring_def Let_def min_def max_def)

lemma LearningRoadService_cleanJsonResponse_eq:
  "LearningRoadService_cleanJsonResponse = cleanJsonResponse"
  unfolding LearningRoadService_cleanJsonResponse_def cleanJsonResponse_def by (rule refl)

lemma payload_ends:
  assumes "payload = CHR ''{'' # body @ ''}'' \<or> payload = CHR ''['' # body @ '']''"
  shows "payload \<noteq> []" "\<not> isWhiteSpace (hd payload)" "\<not> isWhiteSpace (last payload)"
    "hd payload \<noteq> CHR ''j''" "hd payload \<noteq> CHR 0x60" "last payload \<noteq> CHR 0x60"
  using assms by (auto simp: isWhiteSpace_def)

lemma slice_payload:
  assumes "payload = CHR ''{'' # body @ ''}'' \<or> payload = CHR ''['' # body @ '']''"
  shows "(let openBrace = indexOf payload CHR ''{'';
          openBracket = indexOf payload CHR ''['';
          closeBrace = lastIndexOf payload CHR ''}'';
          closeBracket = lastIndexOf payload CHR '']'';
          (startIndex, endIndex) =
            (if openBrace \<noteq> - 1 \<and> (openBracket = - 1 \<or> openBrace < openBracket)
             then (openBrace, closeBrace)
             else if openBracket \<noteq> - 1 then (openBracket, closeBracket)
             else (- 1, - 1));
          cleaned4 =
            (if startIndex \<noteq> - 1 \<and> endIndex \<noteq> - 1 \<and> endIndex > startIndex
             then substring payload startIndex (endIndex + 1)
             else payload)
      in trim cleaned4) = payload"
proof -
  have t: "trim payload = payload"
    using payload_ends(1-3)[OF assms] by (rule trim_wrap0)
  from assms show ?thesis
  proof
    assume p: "payload = CHR ''{'' # body @ ''}''"
    have ob: "indexOf payload CHR ''{'' = 0" by (simp add: p)
    have "payload = (CHR ''{'' # body) @ [CHR ''}'']" by (simp add: p)
    then have cb: "lastIndexOf payload CHR ''}'' = int (length body) + 1"
      by (simp only: lastIndexOf_snoc) simp
    have obk: "indexOf payload CHR ''['' = - 1 \<or> 0 < indexOf payload CHR ''[''"
      using indexOf_ge[of "body @ ''}''" "CHR ''[''"] by (auto simp: p Let_def)
    have sub: "substring payload 0 (2 + int (length body)) = payload"
      using substring_all[of payload] by (simp add: p)
    show ?thesis using obk by (auto simp: ob cb sub t Let_def)
  next
    assume p: "payload = CHR ''['' # body @ '']''"
    have ob: "indexOf payload CHR ''['' = 0" by (simp add: p)
    have "payload = (CHR ''['' # body) @ [CHR '']'']" by (simp add: p)
    then have cb: "lastIndexOf payload CHR '']'' = int (length body) + 1"
      by (simp only: lastIndexOf_snoc) simp
    have obk: "indexOf payload CHR ''{'' = - 1 \<or> 0 < indexOf payload CHR ''{''"
      using indexOf_ge[of "body @ '']''" "CHR ''{''"] by (auto simp: p Let_def)
    have sub: "substring payload 0 (2 + int (length body)) = payload"
      using substring_all[of payload] by (simp add: p)
    show ?thesis using obk by (auto simp: ob cb sub t Let_def)
  qed
qed


lemma startsWith_append: "startsWith (p @ r) p"
  by (simp add: startsWith_def)

lemma not_startsWith_hd: "xs \<noteq> [] \<Longrightarrow> p \<noteq> [] \<Longrightarrow> hd xs \<noteq> hd p \<Longrightarrow> \<not> startsWith xs p"
  by (cases xs; cases p) (auto simp: startsWith_def)

lemma endsWith_append: "endsWith (r @ p) p"
  by (simp add: endsWith_def)

lemma not_endsWith_last: "xs \<noteq> [] \<Longrightarrow> p \<noteq> [] \<Longrightarrow> last xs \<noteq> last p \<Longrightarrow> \<not> endsWith xs p"
proof
  assume a: "xs \<noteq> []" "p \<noteq> []" "last xs \<noteq> last p" and e: "endsWith xs p"
  from e have "xs = take (length xs - length p) xs @ p"
    by (metis append_take_drop_id endsWith_def)
  then have "last xs = last p" using a(2) by (metis last_appendR)
  with a(3) show False by simp
qed

lemma substring_drop_suffix: "substring (a @ b) 0 (int (length (a @ b)) - int (length b)) = a"
  using substring_prefix[of a b] by simp

lemma clean_stages:
  assumes c0: "trim text = c0"
    and c1: "(if startsWith c0 ''```json'' then substringFrom c0 7
             else if startsWith c0 ''```'' then substringFrom c0 3
             else c0) = c1"
    and c2: "(if endsWith c1 ''```'' then substring c1 0 (int (length c1) - 3) else c1) = c2"
    and c3: "trim c2 = payload"
    and p: "payload = CHR ''{'' # body @ ''}'' \<or> payload = CHR ''['' # body @ '']''"
  shows "cleanJsonResponse text = payload"
  unfolding cleanJsonResponse_def
  apply (simp only: c0 Let_def [of c0])
  apply (simp only: c1 Let_def [of c1])
  apply (simp only: c2 Let_def [of c2])
  apply (simp only: c3 Let_def [of payload])
  using slice_payload[OF p] by (simp only: Let_def)


lemma trim_inner:
  assumes "list_all isWhiteSpace w2" "list_all isWhiteSpace w3"
    and p: "payload = CHR ''{'' # body @ ''}'' \<or> payload = CHR ''['' # body @ '']''"
  shows "trim (w2 @ payload @ w3) = payload"
  using assms(1,2) payload_ends(1-3)[OF p] by (intro trim_wrap) (simp_all add: list_all_iff)

lemma inner_hd:
  assumes "list_all isWhiteSpace w2"
    and p: "payload = CHR ''{'' # body @ ''}'' \<or> payload = CHR ''['' # body @ '']''"
  shows "hd (w2 @ payload @ r) \<noteq> CHR ''j''"
  using assms(1) payload_ends(1,4)[OF p]
  by (cases w2) (auto simp: isWhiteSpace_def)

text \<open>
  Claim C9. Take a payload that opens with a brace and closes with a brace, or opens with a
  bracket and closes with a bracket, as every JSON object or array text does once the white
  space around it is counted to the wrapping. Wrap it in any white space, with no fence or
  with one pair of fences, the opening one bare or tagged \<open>json\<close>, and any white space
  between the fences and the payload. Either normalizer returns exactly the payload, so
  whatever parser is applied next sees the payload itself.
\<close>

theorem cleanJsonResponse_recovers_payload:
  assumes ws: "list_all isWhiteSpace (w1 @ w2 @ w3 @ w4)"
    and p: "payload = CHR ''{'' # body @ ''}'' \<or> payload = CHR ''['' # body @ '']''"
    and f: "opening = [] \<and> closing = [] \<or>
            (opening = ''```json'' \<or> opening = ''```'') \<and> closing = ''```''"
    and c: "clean = cleanJsonResponse \<or> clean = LearningRoadService_cleanJsonResponse"
  shows "clean (w1 @ opening @ w2 @ payload @ w3 @ closing @ w4) = payload \<and>
         parse (clean (w1 @ opening @ w2 @ payload @ w3 @ closing @ w4)) = parse payload"
proof -
  from ws have w1: "\<forall>c\<in>set w1. isWhiteSpace c" and w4: "\<forall>c\<in>set w4. isWhiteSpace c"
    and w2: "list_all isWhiteSpace w2" and w3: "list_all isWhiteSpace w3"
    by (simp_all add: list_all_iff)
  note pe = payload_ends[OF p]
  have inner: "trim (w2 @ payload @ w3) = payload" by (rule trim_inner[OF w2 w3 p])
  let ?text = "w1 @ opening @ w2 @ payload @ w3 @ closing @ w4"
  have main: "cleanJsonResponse ?text = payload"
  proof -
    consider (bare) "opening = []" "closing = []"
      | (tagged) "opening = ''```json''" "closing = ''```''"
      | (fenced) "opening = ''```''" "closing = ''```''"
      using f by blast
    then show ?thesis
    proof cases
      case bare
      have "\<forall>c\<in>set (w1 @ w2). isWhiteSpace c" "\<forall>c\<in>set (w3 @ w4). isWhiteSpace c"
        using ws by (auto simp: list_all_iff)
      then have "trim ((w1 @ w2) @ payload @ (w3 @ w4)) = payload"
        using pe(1-3) by (rule trim_wrap)
      then have c0: "trim ?text = payload" by (simp add: bare)
      have s1: "\<not> startsWith payload ''```json''" "\<not> startsWith payload ''```''"
        using pe(1,5) by (simp_all add: not_startsWith_hd)
      have s2: "\<not> endsWith payload ''```''"
        using pe(1,6) by (simp add: not_endsWith_last)
      have t: "trim payload = payload" using pe(1-3) by (rule trim_wrap0)
      show ?thesis
        by (rule clean_stages[OF c0 _ _ t p]) (simp only: s1 s2 if_False)+
    next
      case tagged
      let ?c0 = "''```json'' @ (w2 @ payload @ w3) @ ''```''"
      have "trim (w1 @ ?c0 @ w4) = ?c0"
        using w1 w4 by (rule trim_wrap) (simp_all add: isWhiteSpace_def)
      then have c0: "trim ?text = ?c0" by (simp add: tagged)
      have s1: "startsWith ?c0 ''```json''" by (rule startsWith_append)
      have d1: "substringFrom ?c0 7 = (w2 @ payload @ w3) @ ''```''"
        using substringFrom_append[of "''```json''" "(w2 @ payload @ w3) @ ''```''"] by simp
      have s2: "endsWith ((w2 @ payload @ w3) @ ''```'') ''```''" by (rule endsWith_append)
      have d2: "substring ((w2 @ payload @ w3) @ ''```'') 0
                  (int (length ((w2 @ payload @ w3) @ ''```'')) - 3) = w2 @ payload @ w3"
        using substring_drop_suffix[of "w2 @ payload @ w3" "''```''"] by simp
      show ?thesis
        by (rule clean_stages[OF c0 _ _ inner p]) (simp only: s1 s2 d1 d2 if_True)+
    next
      case fenced
      let ?c0 = "''```'' @ (w2 @ payload @ w3) @ ''```''"
      have "trim (w1 @ ?c0 @ w4) = ?c0"
        using w1 w4 by (rule trim_wrap) (simp_all add: isWhiteSpace_def)
      then have c0: "trim ?text = ?c0" by (simp add: fenced)
      have "hd (w2 @ payload @ (w3 @ ''```'')) \<noteq> CHR ''j''" by (rule inner_hd[OF w2 p])
      moreover have "w2 @ payload @ (w3 @ ''```'') \<noteq> []" using pe(1) by simp
      ultimately have s0: "\<not> startsWith ?c0 ''```json''"
        by (cases "w2 @ payload @ (w3 @ ''```'')") (auto simp: startsWith_def)
      have s1: "startsWith ?c0 ''```''" by (rule startsWith_append)
      have d1: "substringFrom ?c0 3 = (w2 @ payload @ w3) @ ''```''"
        using substringFrom_append[of "''```''" "(w2 @ payload @ w3) @ ''```''"] by simp
      have s2: "endsWith ((w2 @ payload @ w3) @ ''```'') ''```''" by (rule endsWith_append)
      have d2: "substring ((w2 @ payload @ w3) @ ''```'') 0
                  (int (length ((w2 @ payload @ w3) @ ''```'')) - 3) = w2 @ payload @ w3"
        using substring_drop_suffix[of "w2 @ payload @ w3" "''```''"] by simp
      show ?thesis
        by (rule clean_stages[OF c0 _ _ inner p]) (simp only: s0 s1 s2 d1 d2 if_True if_False)+
    qed
  qed
  from c have "clean = cleanJsonResponse"
    by (auto simp: LearningRoadService_cleanJsonResponse_eq)
  with main show ?thesis by simp
qed

theorem cleanJsonResponse_recovers_payload_witness:
  \<open>list_all isWhiteSpace ('' '' @ [CHR 0x0A] @ [CHR 0x0A] @ [CHR 0x09]) \<and>
   cleanJsonResponse ('' '' @ ''```json'' @ [CHR 0x0A] @ (CHR ''['' # ''1,{}'' @ '']'') @ [CHR 0x0A] @ ''```'' @ [CHR 0x09])
     = ''[1,{}]'' \<and>
   LearningRoadService_cleanJsonResponse ('' '' @ ''```'' @ [CHR 0x0A] @ (CHR ''{'' # ''"a":[]'' @ ''}'') @ [CHR 0x0A] @ ''```'' @ [CHR 0x09])
     = ''{"a":[]}''\<close>
  using cleanJsonResponse_recovers_payload
          [of \<open>'' ''\<close> \<open>[CHR 0x0A]\<close> \<open>[CHR 0x0A]\<close> \<open>[CHR 0x09]\<close> \<open>''[1,{}]''\<close> \<open>''1,{}''\<close>
              \<open>''```json''\<close> \<open>''```''\<close> cleanJsonResponse id]
        cleanJsonResponse_recovers_payload
          [of \<open>'' ''\<close> \<open>[CHR 0x0A]\<close> \<open>[CHR 0x0A]\<close> \<open>[CHR 0x09]\<close> \<open>''{"a":[]}''\<close> \<open>''"a":[]''\<close>
              \<open>''```''\<close> \<open>''```''\<close> LearningRoadService_cleanJsonResponse id]
  by (simp add: isWhiteSpace_def)

subsection \<open>One level of the exam loop\<close>


lemma tryBuildExam_Some:
  assumes "tryBuildExam e topic settings examTime level cleaned fx = (Some exam, fx')"
  shows "exam_difficultyLevel exam = level"
    "exam_difficultyLabel exam = label (getDifficultyConfig level)"
    "requests fx' = requests fx" "delays fx' = delays fx"
  using assms
  by (auto simp: tryBuildExam_def Let_def split: option.splits if_splits json.splits)

lemma tryBuildExam_None:
  assumes "tryBuildExam e topic settings examTime level cleaned fx = (None, fx')"
  shows "requests fx' = requests fx" "delays fx' = delays fx"
  using assms
  by (auto simp: tryBuildExam_def Let_def split: option.splits if_splits json.splits)

lemma fallbackExam_fields:
  "exam_difficultyLevel (fst (fallbackExam e topic settings level fx)) = level"
  "exam_difficultyLabel (fst (fallbackExam e topic settings level fx)) = label (getDifficultyConfig level)"
  "requests (snd (fallbackExam e topic settings level fx)) = requests fx"
  "delays (snd (fallbackExam e topic settings level fx)) = delays fx"
  "\<exists>q. exam_questions (fst (fallbackExam e topic settings level fx)) = JArr [q]"
  by (simp_all add: fallbackExam_def Let_def)

lemma generateExam_fields:
  "exam_difficultyLevel (fst (generateExam e topic settings examTime level resp fx)) = level"
  "exam_difficultyLabel (fst (generateExam e topic settings examTime level resp fx))
     = label (getDifficultyConfig level)"
  "requests (snd (generateExam e topic settings examTime level resp fx)) = requests fx"
proof -
  obtain r fx' where t: "tryBuildExam e topic settings examTime level (cleanJsonResponse resp) fx = (r, fx')"
    by (cases "tryBuildExam e topic settings examTime level (cleanJsonResponse resp) fx")
  show "exam_difficultyLevel (fst (generateExam e topic settings examTime level resp fx)) = level"
    "exam_difficultyLabel (fst (generateExam e topic settings examTime level resp fx))
     = label (getDifficultyConfig level)"
    "requests (snd (generateExam e topic settings examTime level resp fx)) = requests fx"
    using t tryBuildExam_Some[of e topic settings examTime level "cleanJsonResponse resp" fx _ fx']
      tryBuildExam_None[of e topic settings examTime level "cleanJsonResponse resp" fx fx']
    by (cases r; simp add: generateExam_def fallbackExam_fields)+
qed

lemma generateExam_unparsed:
  assumes "JSON_parse e (cleanJsonResponse resp) = None"
  shows "generateExam e topic settings examTime level resp fx = fallbackExam e topic settings level fx"
  using assms by (simp add: generateExam_def tryBuildExam_def)


lemma generateLevels_done:
  "\<not> level \<le> numberOfExams settings \<Longrightarrow>
   generateLevels e topic settings examTime level exams fx = (Inr exams, fx)"
  by (simp add: generateLevels.simps)

lemma generateLevels_throws:
  "level \<le> numberOfExams settings \<Longrightarrow> getOssResponse e (requests fx) = Inl err \<Longrightarrow>
   generateLevels e topic settings examTime level exams fx
     = (Inl err, fx\<lparr>requests := requests fx + 1\<rparr>)"
  by (subst generateLevels.simps) simp

lemma generateLevels_step:
  assumes "level \<le> numberOfExams settings" "getOssResponse e (requests fx) = Inr resp"
  shows "\<exists>fx1 fx3. requests fx1 = requests fx + 1 \<and> requests fx3 = requests fx + 1 \<and>
     generateLevels e topic settings examTime level exams fx
       = generateLevels e topic settings examTime (level + 1)
           (exams @ [fst (generateExam e topic settings examTime level resp fx1)]) fx3"
proof -
  let ?fx1 = "fx\<lparr>requests := requests fx + 1\<rparr>"
  obtain exam fx2 where g: "generateExam e topic settings examTime level resp ?fx1 = (exam, fx2)"
    by (cases "generateExam e topic settings examTime level resp ?fx1")
  have r: "requests fx2 = requests fx + 1"
    using generateExam_fields(3)[of e topic settings examTime level resp ?fx1] g by simp
  let ?fx3 = "if level < numberOfExams settings then fx2\<lparr>delays := delays fx2 + 1\<rparr> else fx2"
  have "generateLevels e topic settings examTime level exams fx
       = generateLevels e topic settings examTime (level + 1) (exams @ [exam]) ?fx3"
    using assms g by (subst generateLevels.simps) (simp add: Let_def)
  moreover have "requests ?fx3 = requests fx + 1" using r by simp
  moreover have "exam = fst (generateExam e topic settings examTime level resp ?fx1)" using g by simp
  ultimately show ?thesis by (intro exI[of _ ?fx1] exI[of _ ?fx3]) simp
qed

lemma generateLevels_all:
  assumes "n = nat (numberOfExams settings + 1 - level)"
    and "\<forall>k<n. \<not> isl (getOssResponse e (requests fx + k))"
  shows "\<exists>news fx'.
     generateLevels e topic settings examTime level exams fx = (Inr (exams @ news), fx') \<and>
     length news = n \<and> requests fx' = requests fx + n \<and>
     (\<forall>i<n. \<exists>fxi. news ! i =
        fst (generateExam e topic settings examTime (level + int i)
               (projr (getOssResponse e (requests fx + i))) fxi))"
  using assms
proof (induction n arbitrary: level exams fx)
  case 0
  then have "\<not> level \<le> numberOfExams settings" by simp
  then show ?case by (simp add: generateLevels_done)
next
  case (Suc n)
  then have le: "level \<le> numberOfExams settings" by simp
  from Suc.prems(2) have "\<not> isl (getOssResponse e (requests fx))" by force
  then obtain resp where t: "getOssResponse e (requests fx) = Inr resp"
    by (cases "getOssResponse e (requests fx)") simp_all
  from generateLevels_step[OF le t, of topic examTime exams]
  obtain fx1 fx3 where r3: "requests fx3 = requests fx + 1"
    and st: "generateLevels e topic settings examTime level exams fx
       = generateLevels e topic settings examTime (level + 1)
           (exams @ [fst (generateExam e topic settings examTime level resp fx1)]) fx3"
    by blast
  let ?exam = "fst (generateExam e topic settings examTime level resp fx1)"
  have n: "n = nat (numberOfExams settings + 1 - (level + 1))" using Suc.prems(1) by simp
  have ok: "\<forall>k<n. \<not> isl (getOssResponse e (requests fx3 + k))"
    using Suc.prems(2) r3 by auto
  from Suc.IH[OF n ok, of "exams @ [?exam]"]
  obtain news fx' where
    res: "generateLevels e topic settings examTime (level + 1) (exams @ [?exam]) fx3
          = (Inr ((exams @ [?exam]) @ news), fx')"
    and len: "length news = n" and req: "requests fx' = requests fx3 + n"
    and each: "\<forall>i<n. \<exists>fxi. news ! i =
        fst (generateExam e topic settings examTime (level + 1 + int i)
               (projr (getOssResponse e (requests fx3 + i))) fxi)"
    by blast
  have "\<forall>i<Suc n. \<exists>fxi. (?exam # news) ! i =
        fst (generateExam e topic settings examTime (level + int i)
               (projr (getOssResponse e (requests fx + i))) fxi)"
  proof (intro allI impI)
    fix i assume "i < Suc n"
    show "\<exists>fxi. (?exam # news) ! i =
        fst (generateExam e topic settings examTime (level + int i)
               (projr (getOssResponse e (requests fx + i))) fxi)"
    proof (cases i)
      case 0
      then show ?thesis using t by auto
    next
      case (Suc j)
      then have "j < n" using \<open>i < Suc n\<close> by simp
      with each obtain fxi where "news ! j =
        fst (generateExam e topic settings examTime (level + 1 + int j)
               (projr (getOssResponse e (requests fx3 + j))) fxi)" by blast
      then show ?thesis using Suc r3 by (auto simp: algebra_simps)
    qed
  qed
  then show ?case using st res len req r3
    by (intro exI[of _ "?exam # news"] exI[of _ fx']) simp
qed


lemma processFiles_ok:
  "list_all (\<lambda>f. \<not> isl (fileToBase64 f)) files \<Longrightarrow> \<exists>parts. processFiles files = Inr parts"
proof (induction files)
  case Nil
  then show ?case by simp
next
  case (Cons f fs)
  then obtain parts where "processFiles fs = Inr parts" by auto
  moreover from Cons.prems obtain d where "fileToBase64 f = Inr d"
    by (cases "fileToBase64 f") simp_all
  ultimately show ?case by simp
qed

lemma label_table:
  assumes "i < 7"
  shows "label (getDifficultyConfig (1 + int i))
     = [''Foundation'', ''Beginner'', ''Intermediate'', ''Advanced'', ''Expert'', ''Master'',
        ''Genius''] ! i"
proof -
  from assms consider "i = 0" | "i = 1" | "i = 2" | "i = 3" | "i = 4" | "i = 5" | "i = 6"
    by linarith
  then show ?thesis
    by cases (simp_all add: getDifficultyConfig_def configs_def foundationConfig_def)
qed

text \<open>
  Claim C2. For every N from 1 to 7: when a content source is given, the files can be read
  and none of the N requests throws (whatever text they return, well-formed JSON included),
  the operation returns a series with \<open>totalExams = N\<close> and exactly N exams whose levels
  are 1, ..., N in this order and whose labels are the first N entries of the vocabulary
  Foundation, Beginner, Intermediate, Advanced, Expert, Master, Genius; it has issued N
  requests. For N = 2 the levels are 1, 2 and the labels Foundation, Beginner.
\<close>

theorem generateExamSeries_levels:
  assumes N: "1 \<le> N" "N \<le> 7" "numberOfExams settings = N"
    and src: "trim examContentDescription \<noteq> [] \<or> files \<noteq> []"
    and readable: "list_all (\<lambda>f. \<not> isl (fileToBase64 f)) files"
    and answers: "\<forall>k<nat N. \<not> isl (getOssResponse e k)"
  shows "\<exists>series fx.
     generateExamSeries e seriesTopic examContentDescription files settings examTime
       = (Inr series, fx) \<and>
     series_totalExams series = N \<and>
     length (series_exams series) = nat N \<and>
     map exam_difficultyLevel (series_exams series) = [1..N] \<and>
     map exam_difficultyLabel (series_exams series)
       = take (nat N) [''Foundation'', ''Beginner'', ''Intermediate'', ''Advanced'', ''Expert'',
                       ''Master'', ''Genius''] \<and>
     requests fx = nat N \<and>
     (N = 2 \<longrightarrow>
        series_totalExams series = 2 \<and>
        exam_difficultyLevel (series_exams series ! 0) = 1 \<and>
        exam_difficultyLabel (series_exams series ! 0) = ''Foundation'' \<and>
        exam_difficultyLevel (series_exams series ! 1) = 2 \<and>
        exam_difficultyLabel (series_exams series ! 1) = ''Beginner'')"
proof -
  let ?vocab = "[''Foundation'', ''Beginner'', ''Intermediate'', ''Advanced'', ''Expert'',
                 ''Master'', ''Genius'']"
  from processFiles_ok[OF readable] obtain parts where pf: "processFiles files = Inr parts" ..
  have n: "nat N = nat (numberOfExams settings + 1 - 1)" using N by simp
  have ok: "\<forall>k<nat N. \<not> isl (getOssResponse e (requests no_effects + k))"
    using answers by (simp add: no_effects_def)
  from generateLevels_all[OF n ok, of seriesTopic examTime "[]"]
  obtain news fx' where
    res: "generateLevels e seriesTopic settings examTime 1 [] no_effects = (Inr news, fx')"
    and len: "length news = nat N" and req: "requests fx' = nat N"
    and each: "\<forall>i<nat N. \<exists>fxi. news ! i =
        fst (generateExam e seriesTopic settings examTime (1 + int i)
               (projr (getOssResponse e (requests no_effects + i))) fxi)"
    by (auto simp: no_effects_def)
  have lev: "map exam_difficultyLevel news = [1..N]"
  proof (rule nth_equalityI)
    show "length (map exam_difficultyLevel news) = length [1..N]" using len N by simp
  next
    fix i assume "i < length (map exam_difficultyLevel news)"
    then have i: "i < nat N" using len by simp
    with each obtain fxi where "news ! i =
        fst (generateExam e seriesTopic settings examTime (1 + int i)
               (projr (getOssResponse e (requests no_effects + i))) fxi)" by blast
    then have "exam_difficultyLevel (news ! i) = 1 + int i"
      by (simp add: generateExam_fields)
    then show "map exam_difficultyLevel news ! i = [1..N] ! i"
      using i len by simp
  qed
  have lab: "map exam_difficultyLabel news = take (nat N) ?vocab"
  proof (rule nth_equalityI)
    show "length (map exam_difficultyLabel news) = length (take (nat N) ?vocab)"
      using len N by simp
  next
    fix i assume "i < length (map exam_difficultyLabel news)"
    then have i: "i < nat N" using len by simp
    then have i7: "i < 7" using N by simp
    from i each obtain fxi where "news ! i =
        fst (generateExam e seriesTopic settings examTime (1 + int i)
               (projr (getOssResponse e (requests no_effects + i))) fxi)" by blast
    then have "exam_difficultyLabel (news ! i) = label (getDifficultyConfig (1 + int i))"
      by (simp add: generateExam_fields)
    then show "map exam_difficultyLabel news ! i = take (nat N) ?vocab ! i"
      using i len label_table[OF i7] by simp
  qed
  have two: "N = 2 \<Longrightarrow>
        exam_difficultyLevel (news ! 0) = 1 \<and>
        exam_difficultyLabel (news ! 0) = ''Foundation'' \<and>
        exam_difficultyLevel (news ! 1) = 2 \<and>
        exam_difficultyLabel (news ! 1) = ''Beginner''"
  proof -
    assume n2: "N = 2"
    have u: "[1..2::int] = [1, 2]" by (simp add: upto_rec1)
    from len n2 have l: "length news = 2" by simp
    then have "map exam_difficultyLevel news = [exam_difficultyLevel (news ! 0), exam_difficultyLevel (news ! 1)]"
      "map exam_difficultyLabel news = [exam_difficultyLabel (news ! 0), exam_difficultyLabel (news ! 1)]"
      by (cases news; cases "tl news"; simp)+
    with lev lab n2 u show ?thesis by simp
  qed
  show ?thesis
    using src pf res len lev lab req N(3) two
    by (simp add: generateExamSeries_def)
qed


theorem generateExamSeries_levels_witness:
  "trim ''covers linear equations'' \<noteq> [] \<and>
   (\<exists>series fx.
      generateExamSeries stub_env ''Algebra Basics'' ''covers linear equations'' []
          \<lparr>numberOfExams = 2, questionsPerExam = None, timePerExam = None\<rparr> 30
        = (Inr series, fx) \<and>
      series_totalExams series = 2 \<and>
      length (series_exams series) = 2 \<and>
      map exam_difficultyLevel (series_exams series) = [1, 2] \<and>
      map exam_difficultyLabel (series_exams series) = [''Foundation'', ''Beginner''])"
proof -
  have t: "trim ''covers linear equations'' \<noteq> []"
    by (simp add: trim_def isWhiteSpace_def)
  have u: "[1..2::int] = [1, 2]" by (simp add: upto_rec1)
  have a: "\<forall>k<nat 2. \<not> isl (getOssResponse stub_env k)" by (simp add: stub_env_def)
  from generateExamSeries_levels
    [of 2 "\<lparr>numberOfExams = 2, questionsPerExam = None, timePerExam = None\<rparr>"
        "''covers linear equations''" "[]" stub_env "''Algebra Basics''" 30] t a
  obtain series fx where
    "generateExamSeries stub_env ''Algebra Basics'' ''covers linear equations'' []
          \<lparr>numberOfExams = 2, questionsPerExam = None, timePerExam = None\<rparr> 30
        = (Inr series, fx)"
    "series_totalExams series = 2" "length (series_exams series) = 2"
    "map exam_difficultyLevel (series_exams series) = [1, 2]"
    "map exam_difficultyLabel (series_exams series) = [''Foundation'', ''Beginner'']"
    using u by auto
  with t show ?thesis by (intro conjI exI[of _ series] exI[of _ fx]) simp_all
qed

text \<open>
  Claim C3. When the description is empty or white space only and there is no reference
  file, the operation fails at once with the input error: no series is returned, no request
  has been issued and the clock has not been read.
\<close>

theorem generateExamSeries_rejects_without_content:
  assumes "trim examContentDescription = []" and "files = []"
  shows "generateExamSeries e seriesTopic examContentDescription files settings examTime
     = (Inl (Error ''Please provide either an exam description or upload reference materials.''),
        no_effects) \<and>
     requests no_effects = 0 \<and> clock_reads no_effects = 0"
  using assms by (simp add: generateExamSeries_def no_effects_def)

theorem generateExamSeries_rejects_without_content_witness:
  "trim ([CHR 0x20, CHR 0x09, CHR 0x0A]) = [] \<and>
   generateExamSeries stub_env ''Algebra Basics'' [CHR 0x20, CHR 0x09, CHR 0x0A] []
       \<lparr>numberOfExams = 2, questionsPerExam = None, timePerExam = None\<rparr> 30
     = (Inl (Error ''Please provide either an exam description or upload reference materials.''),
        no_effects) \<and>
   requests no_effects = 0"
proof -
  have t: "trim ([CHR 0x20, CHR 0x09, CHR 0x0A]) = []"
    by (simp add: trim_def isWhiteSpace_def)
  from generateExamSeries_rejects_without_content
    [OF t refl, of stub_env "''Algebra Basics''"
       "\<lparr>numberOfExams = 2, questionsPerExam = None, timePerExam = None\<rparr>" 30]
  show ?thesis using t by simp
qed

lemma generateLevels_abort:
  assumes "int k < numberOfExams settings + 1 - level"
    and "\<forall>j<k. \<not> isl (getOssResponse e (requests fx + j))"
    and "getOssResponse e (requests fx + k) = Inl err"
  shows "\<exists>fx'. generateLevels e topic settings examTime level exams fx = (Inl err, fx') \<and>
     requests fx' = requests fx + k + 1"
  using assms
proof (induction k arbitrary: level exams fx)
  case 0
  then have "level \<le> numberOfExams settings" by simp
  with 0 show ?case by (simp add: generateLevels_throws)
next
  case (Suc k)
  then have le: "level \<le> numberOfExams settings" by simp
  from Suc.prems(2) have "\<not> isl (getOssResponse e (requests fx))" by force
  then obtain resp where t: "getOssResponse e (requests fx) = Inr resp"
    by (cases "getOssResponse e (requests fx)") simp_all
  from generateLevels_step[OF le t, of topic examTime exams]
  obtain fx1 fx3 where r3: "requests fx3 = requests fx + 1"
    and st: "generateLevels e topic settings examTime level exams fx
       = generateLevels e topic settings examTime (level + 1)
           (exams @ [fst (generateExam e topic settings examTime level resp fx1)]) fx3"
    by blast
  have a: "int k < numberOfExams settings + 1 - (level + 1)" using Suc.prems(1) by simp
  have b: "\<forall>j<k. \<not> isl (getOssResponse e (requests fx3 + j))" using Suc.prems(2) r3 by auto
  have c: "getOssResponse e (requests fx3 + k) = Inl err" using Suc.prems(3) r3 by simp
  from Suc.IH[OF a b c] st r3 show ?case by auto
qed

text \<open>
  Claim C4, as amended. When the request of some level throws, after the requests of the
  earlier levels have returned, the operation returns no series at all, not even the exams
  already built, and issues no further request. It rejects with the thrown value itself
  when that is an \<open>Error\<close>, and with a new \<open>Error\<close> carrying a fixed message when
  something else was thrown.
\<close>

theorem generateExamSeries_aborts_when_request_throws:
  assumes src: "trim examContentDescription \<noteq> [] \<or> files \<noteq> []"
    and readable: "list_all (\<lambda>f. \<not> isl (fileToBase64 f)) files"
    and k: "int k < numberOfExams settings"
    and before: "\<forall>j<k. \<not> isl (getOssResponse e j)"
    and throws: "getOssResponse e k = Inl err"
  shows "\<exists>fx.
     generateExamSeries e seriesTopic examContentDescription files settings examTime
       = (Inl (case err of
                 Error m \<Rightarrow> Error m
               | Thrown v \<Rightarrow> Error ''An unexpected error occurred while generating the exam series. Please check your files and try again.''),
          fx) \<and>
     requests fx = k + 1"
proof -
  from processFiles_ok[OF readable] obtain parts where pf: "processFiles files = Inr parts" ..
  have a: "int k < numberOfExams settings + 1 - 1" using k by simp
  have b: "\<forall>j<k. \<not> isl (getOssResponse e (requests no_effects + j))"
    using before by (simp add: no_effects_def)
  have c: "getOssResponse e (requests no_effects + k) = Inl err"
    using throws by (simp add: no_effects_def)
  from generateLevels_abort[OF a b c, of seriesTopic examTime "[]"]
  obtain fx' where "generateLevels e seriesTopic settings examTime 1 [] no_effects = (Inl err, fx')"
    and "requests fx' = k + 1" by (auto simp: no_effects_def)
  then show ?thesis using src pf
    by (cases err) (auto simp: generateExamSeries_def)
qed


theorem generateExamSeries_aborts_when_request_throws_witness:
  "(\<exists>fx. generateExamSeries
       (stub_env\<lparr>getOssResponse :=
          (\<lambda>k. if k = 1 then Inl (Error ''rate limit'') else getOssResponse stub_env k)\<rparr>)
       ''Algebra Basics'' ''covers linear equations'' []
       \<lparr>numberOfExams = 3, questionsPerExam = None, timePerExam = None\<rparr> 30
     = (Inl (Error ''rate limit''), fx) \<and> requests fx = 2)"
proof -
  let ?e = "stub_env\<lparr>getOssResponse :=
          (\<lambda>k. if k = 1 then Inl (Error ''rate limit'') else getOssResponse stub_env k)\<rparr>"
  have t: "trim ''covers linear equations'' \<noteq> [] \<or> ([] :: File list) \<noteq> []"
    by (simp add: trim_def isWhiteSpace_def)
  have b: "\<forall>j<1. \<not> isl (getOssResponse ?e j)" by (simp add: stub_env_def)
  have c: "getOssResponse ?e 1 = Inl (Error ''rate limit'')" by simp
  from generateExamSeries_aborts_when_request_throws
    [OF t _ _ b c, of "\<lparr>numberOfExams = 3, questionsPerExam = None, timePerExam = None\<rparr>"
       "''Algebra Basics''" 30]
  show ?thesis by (simp add: numeral_2_eq_2)
qed

theorem generateExamSeries_rethrow_counterexample:
  "getOssResponse (stub_env\<lparr>getOssResponse := (\<lambda>k. Inl (Thrown (JStr ''rate limit'')))\<rparr>) 0
     = Inl (Thrown (JStr ''rate limit'')) \<and>
   fst (generateExamSeries
       (stub_env\<lparr>getOssResponse := (\<lambda>k. Inl (Thrown (JStr ''rate limit'')))\<rparr>)
       ''Algebra Basics'' ''covers linear equations'' []
       \<lparr>numberOfExams = 3, questionsPerExam = None, timePerExam = None\<rparr> 30)
     = Inl (Error ''An unexpected error occurred while generating the exam series. Please check your files and try again.'') \<and>
   fst (generateExamSeries
       (stub_env\<lparr>getOssResponse := (\<lambda>k. Inl (Thrown (JStr ''rate limit'')))\<rparr>)
       ''Algebra Basics'' ''covers linear equations'' []
       \<lparr>numberOfExams = 3, questionsPerExam = None, timePerExam = None\<rparr> 30)
     \<noteq> Inl (Thrown (JStr ''rate limit''))"
proof -
  have t: "trim ''covers linear equations'' \<noteq> []"
    by (simp add: trim_def isWhiteSpace_def)
  show ?thesis
    using t by (simp add: generateExamSeries_def generateLevels_throws no_effects_def)
qed

lemma generateExamSeries_second_exam:
  assumes N: "numberOfExams settings = 3"
    and src: "trim examContentDescription \<noteq> [] \<or> files \<noteq> []"
    and readable: "list_all (\<lambda>f. \<not> isl (fileToBase64 f)) files"
    and r1: "getOssResponse e 0 = Inr response1"
    and r2: "getOssResponse e 1 = Inr response2"
    and r3: "getOssResponse e 2 = Inr response3"
  shows "\<exists>series fx fxi.
     generateExamSeries e seriesTopic examContentDescription files settings examTime
       = (Inr series, fx) \<and>
     length (series_exams series) = 3 \<and>
     series_exams series ! 1
       = fst (generateExam e seriesTopic settings examTime 2 response2 fxi)"
proof -
  from processFiles_ok[OF readable] obtain parts where pf: "processFiles files = Inr parts" ..
  have n: "3 = nat (numberOfExams settings + 1 - 1)" using N by simp
  have ok: "\<forall>k<3. \<not> isl (getOssResponse e (requests no_effects + k))"
  proof (intro allI impI)
    fix k :: nat assume "k < 3"
    then consider "k = 0" | "k = 1" | "k = 2" by linarith
    then show "\<not> isl (getOssResponse e (requests no_effects + k))"
      using r1 r2 r3 by cases (simp_all add: no_effects_def numeral_2_eq_2)
  qed
  from generateLevels_all[OF n ok, of seriesTopic examTime "[]"]
  obtain news fx' where
    res: "generateLevels e seriesTopic settings examTime 1 [] no_effects = (Inr news, fx')"
    and len: "length news = 3"
    and each: "\<forall>i<3. \<exists>fxi. news ! i =
        fst (generateExam e seriesTopic settings examTime (1 + int i)
               (projr (getOssResponse e (requests no_effects + i))) fxi)"
    by (auto simp: no_effects_def)
  from each obtain fxi where
    "news ! 1 = fst (generateExam e seriesTopic settings examTime (1 + int 1)
               (projr (getOssResponse e (requests no_effects + 1))) fxi)"
    by (metis one_less_numeral_iff semiring_norm(77))
  then have second: "news ! 1 = fst (generateExam e seriesTopic settings examTime 2 response2 fxi)"
    using r2 by (simp add: no_effects_def)
  obtain series fx where
    s: "generateExamSeries e seriesTopic examContentDescription files settings examTime
       = (Inr series, fx)" and ex: "series_exams series = news"
    using src pf res by (auto simp: generateExamSeries_def)
  show ?thesis
    using s ex len second
    by (intro exI[of _ series] exI[of _ fx] exI[of _ fxi]) simp
qed

text \<open>
  Claim C5, as amended. In a run over three levels whose requests all return, where the
  second response is text that \<open>JSON.parse\<close> still rejects after the normalizer has
  cleaned it, the operation returns a series of three exams. The second exam is the fallback
  of level 2: it has exactly one question, level 2 and the label configured for level 2,
  which is Beginner. (Text that is no JSON as a whole but holds an object between braces is
  cleaned to that object and parsed: then the exam is built from it, not the fallback.)
\<close>

theorem generateExamSeries_fallback_keeps_series:
  assumes N: "numberOfExams settings = 3"
    and src: "trim examContentDescription \<noteq> [] \<or> files \<noteq> []"
    and readable: "list_all (\<lambda>f. \<not> isl (fileToBase64 f)) files"
    and r1: "getOssResponse e 0 = Inr response1"
    and r2: "getOssResponse e 1 = Inr response2"
    and r3: "getOssResponse e 2 = Inr response3"
    and bad: "JSON_parse e (cleanJsonResponse response2) = None"
  shows "\<exists>series fx fxi.
     generateExamSeries e seriesTopic examContentDescription files settings examTime
       = (Inr series, fx) \<and>
     length (series_exams series) = 3 \<and>
     series_exams series ! 1 = fst (fallbackExam e seriesTopic settings 2 fxi) \<and>
     (\<exists>question. exam_questions (series_exams series ! 1) = JArr [question]) \<and>
     exam_difficultyLevel (series_exams series ! 1) = 2 \<and>
     exam_difficultyLabel (series_exams series ! 1) = label (getDifficultyConfig 2) \<and>
     exam_difficultyLabel (series_exams series ! 1) = ''Beginner''"
proof -
  from generateExamSeries_second_exam[OF N src readable r1 r2 r3]
  obtain series fx fxi where
    s: "generateExamSeries e seriesTopic examContentDescription files settings examTime
       = (Inr series, fx)" and len: "length (series_exams series) = 3"
    and second: "series_exams series ! 1
       = fst (generateExam e seriesTopic settings examTime 2 response2 fxi)"
    by blast
  have fb: "series_exams series ! 1 = fst (fallbackExam e seriesTopic settings 2 fxi)"
    using second bad by (simp add: generateExam_unparsed)
  have l2: "label (getDifficultyConfig 2) = ''Beginner''"
    by (simp add: getDifficultyConfig_def configs_def foundationConfig_def)
  show ?thesis
    using s len fb l2 fallbackExam_fields(5)[of e seriesTopic settings 2 fxi]
    by (intro exI[of _ series] exI[of _ fx] exI[of _ fxi]) (simp add: fallbackExam_fields)
qed

lemma clean_plain: "cleanJsonResponse ''Sorry, no exam.'' = ''Sorry, no exam.''"
  by code_simp

theorem generateExamSeries_fallback_keeps_series_witness:
  "JSON_parse stub_env (cleanJsonResponse ''Sorry, no exam.'') = None \<and>
   (\<exists>series fx fxi.
     generateExamSeries
       (stub_env\<lparr>getOssResponse :=
          (\<lambda>k. if k = 1 then Inr ''Sorry, no exam.'' else getOssResponse stub_env k)\<rparr>)
       ''Algebra Basics'' ''covers linear equations'' []
       \<lparr>numberOfExams = 3, questionsPerExam = None, timePerExam = None\<rparr> 30
       = (Inr series, fx) \<and>
     length (series_exams series) = 3 \<and>
     exam_questions (series_exams series ! 1)
       = exam_questions (fst (fallbackExam stub_env ''Algebra Basics''
           \<lparr>numberOfExams = 3, questionsPerExam = None, timePerExam = None\<rparr> 2 fxi)) \<and>
     exam_difficultyLabel (series_exams series ! 1) = ''Beginner'')"
proof -
  let ?e = "stub_env\<lparr>getOssResponse :=
          (\<lambda>k. if k = 1 then Inr ''Sorry, no exam.'' else getOssResponse stub_env k)\<rparr>"
  let ?s = "\<lparr>numberOfExams = 3, questionsPerExam = None, timePerExam = None\<rparr>"
  have t: "trim ''covers linear equations'' \<noteq> [] \<or> ([] :: File list) \<noteq> []"
    by (simp add: trim_def isWhiteSpace_def)
  have bad: "JSON_parse stub_env (cleanJsonResponse ''Sorry, no exam.'') = None"
    by (simp add: clean_plain stub_env_def stub_parse_def stub_payloads_def)
  then have bad': "JSON_parse ?e (cleanJsonResponse ''Sorry, no exam.'') = None" by simp
  have r1: "getOssResponse ?e 0 = Inr (projr (getOssResponse stub_env 0))"
    by (simp add: stub_env_def)
  have r2: "getOssResponse ?e 1 = Inr ''Sorry, no exam.''" by simp
  have r3: "getOssResponse ?e 2 = Inr (projr (getOssResponse stub_env 2))"
    by (simp add: stub_env_def)
  from generateExamSeries_fallback_keeps_series
    [OF _ t _ r1 r2 r3 bad', of ?s "''Algebra Basics''" 30]
  obtain series fx fxi where
    "generateExamSeries ?e ''Algebra Basics'' ''covers linear equations'' [] ?s 30 = (Inr series, fx)"
    "length (series_exams series) = 3"
    "series_exams series ! 1 = fst (fallbackExam ?e ''Algebra Basics'' ?s 2 fxi)"
    "exam_difficultyLabel (series_exams series ! 1) = ''Beginner''"
    by auto
  moreover have "exam_questions (fst (fallbackExam ?e ''Algebra Basics'' ?s 2 fxi))
     = exam_questions (fst (fallbackExam stub_env ''Algebra Basics'' ?s 2 fxi))"
    by (simp add: fallbackExam_def)
  ultimately show ?thesis using bad
    by (intro conjI exI[of _ series] exI[of _ fx] exI[of _ fxi]) simp_all
qed

lemma clean_prose:
  \<open>cleanJsonResponse ''Sure! {"questions":[]}'' = ''{"questions":[]}''\<close>
  by code_simp

lemma generateExam_no_questions:
  assumes "JSON_parse e (cleanJsonResponse response) = Some (JObj [(''questions'', JArr [])])"
  shows "exam_questions (fst (generateExam e seriesTopic settings examTime level response fx))
     = JArr []"
  using assms by (simp add: generateExam_def tryBuildExam_def nullish_def Let_def)

theorem generateExamSeries_fallback_counterexample:
  \<open>JSON_parse stub_env ''Sure! {"questions":[]}'' = None \<and>
   (\<exists>series fx.
     generateExamSeries
       (stub_env\<lparr>getOssResponse :=
          (\<lambda>k. if k = 1 then Inr ''Sure! {"questions":[]}'' else getOssResponse stub_env k)\<rparr>)
       ''Algebra Basics'' ''covers linear equations'' []
       \<lparr>numberOfExams = 3, questionsPerExam = None, timePerExam = None\<rparr> 30
       = (Inr series, fx) \<and>
     length (series_exams series) = 3 \<and>
     exam_questions (series_exams series ! 1) = JArr [])\<close>
proof -
  let ?e = \<open>stub_env\<lparr>getOssResponse :=
          (\<lambda>k. if k = 1 then Inr ''Sure! {"questions":[]}'' else getOssResponse stub_env k)\<rparr>\<close>
  let ?s = "\<lparr>numberOfExams = 3, questionsPerExam = None, timePerExam = None\<rparr>"
  have raw: \<open>JSON_parse stub_env ''Sure! {"questions":[]}'' = None\<close>
    by (simp add: stub_env_def stub_parse_def stub_payloads_def)
  have parsed: \<open>JSON_parse ?e (cleanJsonResponse ''Sure! {"questions":[]}'')
      = Some (JObj [(''questions'', JArr [])])\<close>
    by (simp add: clean_prose stub_env_def stub_parse_def stub_payloads_def)
  have t: "trim ''covers linear equations'' \<noteq> [] \<or> ([] :: File list) \<noteq> []"
    by (simp add: trim_def isWhiteSpace_def)
  have r1: "getOssResponse ?e 0 = Inr (projr (getOssResponse stub_env 0))"
    by (simp add: stub_env_def)
  have r2: \<open>getOssResponse ?e 1 = Inr ''Sure! {"questions":[]}''\<close> by simp
  have r3: "getOssResponse ?e 2 = Inr (projr (getOssResponse stub_env 2))"
    by (simp add: stub_env_def)
  from generateExamSeries_second_exam[OF _ t _ r1 r2 r3, of ?s "''Algebra Basics''" 30]
  obtain series fx fxi where
    s: "generateExamSeries ?e ''Algebra Basics'' ''covers linear equations'' [] ?s 30
       = (Inr series, fx)" and len: "length (series_exams series) = 3"
    and second: \<open>series_exams series ! 1
       = fst (generateExam ?e ''Algebra Basics'' ?s 30 2 ''Sure! {"questions":[]}'' fxi)\<close>
    by auto
  have q: "exam_questions (series_exams series ! 1) = JArr []"
    unfolding second by (rule generateExam_no_questions[OF parsed])
  from raw s len q show ?thesis
    by (intro conjI exI[of _ series] exI[of _ fx]) simp_all
qed

text \<open>
  Claim C10. For every integer level below 1 or above 7 the difficulty table answers with the
  entry of level 1: the label is Foundation and the complexity instruction is the Foundation
  one, and the exam built for a response at such a level, parsed or fallback, carries the
  label Foundation.
\<close>

theorem getDifficultyConfig_out_of_range:
  assumes "level < 1 \<or> 7 < level"
  shows "getDifficultyConfig level = getDifficultyConfig 1 \<and>
     label (getDifficultyConfig level) = ''Foundation'' \<and>
     complexity (getDifficultyConfig level)
       = ''Focus on recall and basic understanding. Questions should test foundational knowledge and basic concepts.'' \<and>
     exam_difficultyLabel (fst (generateExam e seriesTopic settings examTime level response fx))
       = ''Foundation''"
  using assms by (auto simp: generateExam_fields getDifficultyConfig_def configs_def foundationConfig_def)

theorem getDifficultyConfig_out_of_range_witness:
  "label (getDifficultyConfig 8) = ''Foundation'' \<and>
   label (getDifficultyConfig 0) = ''Foundation'' \<and>
   label (getDifficultyConfig (- 3)) = ''Foundation'' \<and>
   exam_difficultyLabel
     (fst (generateExam stub_env ''Algebra Basics''
        \<lparr>numberOfExams = 8, questionsPerExam = None, timePerExam = None\<rparr> 30 8
        ''Sorry, no exam.'' no_effects)) = ''Foundation''"
  using getDifficultyConfig_out_of_range[of 8 stub_env "''Algebra Basics''"
          "\<lparr>numberOfExams = 8, questionsPerExam = None, timePerExam = None\<rparr>" 30
          "''Sorry, no exam.''" no_effects, THEN conjunct2]
        getDifficultyConfig_out_of_range[of 0 stub_env "[]" undefined 0 "[]" no_effects,
          THEN conjunct2]
        getDifficultyConfig_out_of_range[of "- 3" stub_env "[]" undefined 0 "[]" no_effects,
          THEN conjunct2]
  by simp

subsection \<open>The persistence store\<close>





















lemma find_map_update:
  assumes "\<And>r. key (f r) = key r"
  shows "find (\<lambda>x. key x = k') (map (\<lambda>r. if key r = k then f r else r) t)
     = (if k' = k then map_option f (find (\<lambda>x. key x = k) t) else find (\<lambda>x. key x = k') t)"
  using assms by (induction t) auto

text \<open>
  Claim C6. For a stored exam row, \<open>updateExamScore\<close> leaves a row under the same id that
  differs from it in \<open>score\<close>, \<open>completedAt\<close> and \<open>timeTaken\<close> only: the serialized
  questions and every other field are as before, every other row is found unchanged, and the
  other tables are untouched. A second update yields the store that the second update alone
  would have produced: the values of the first attempt are gone.
\<close>

theorem updateExamScore_frame:
  assumes "table_get se_id examId (simulatorExams db) = Some row"
  shows "table_get se_id examId
       (simulatorExams (updateExamScore e db examId score timeTaken now))
     = Some (row\<lparr>se_score := Some score,
                  se_completedAt := Some (toISOString e now),
                  se_timeTaken := Some timeTaken\<rparr>) \<and>
     (\<forall>other. other \<noteq> examId \<longrightarrow>
        table_get se_id other (simulatorExams (updateExamScore e db examId score timeTaken now))
          = table_get se_id other (simulatorExams db)) \<and>
     map se_id (simulatorExams (updateExamScore e db examId score timeTaken now))
       = map se_id (simulatorExams db) \<and>
     map se_questionsData (simulatorExams (updateExamScore e db examId score timeTaken now))
       = map se_questionsData (simulatorExams db) \<and>
     examSeries (updateExamScore e db examId score timeTaken now) = examSeries db \<and>
     learningPaths (updateExamScore e db examId score timeTaken now) = learningPaths db \<and>
     updateExamScore e (updateExamScore e db examId score timeTaken now) examId score' timeTaken' now'
       = updateExamScore e db examId score' timeTaken' now'"
proof -
  let ?f = "\<lambda>r. r\<lparr>se_score := Some score, se_completedAt := Some (toISOString e now),
                  se_timeTaken := Some timeTaken\<rparr>"
  have k: "\<And>r. se_id (?f r) = se_id r" by simp
  have g: "\<And>k'. table_get se_id k'
       (simulatorExams (updateExamScore e db examId score timeTaken now))
     = (if k' = examId then map_option ?f (table_get se_id examId (simulatorExams db))
        else table_get se_id k' (simulatorExams db))"
    unfolding table_get_def updateExamScore_def
    using find_map_update[of se_id ?f _ examId "simulatorExams db", OF k] by simp
  have twice: "updateExamScore e (updateExamScore e db examId score timeTaken now) examId
       score' timeTaken' now' = updateExamScore e db examId score' timeTaken' now'"
    by (simp add: updateExamScore_def comp_def)
  show ?thesis
    using assms twice by (simp add: g) (simp add: updateExamScore_def comp_def)
qed

theorem updateExamScore_frame_witness:
  "table_get se_id ''e1''
     (simulatorExams (saveExamSeries stub_env empty_database
        (series_fixture [exam_fixture ''e1'' 1 (JArr [JNull])]) settings_fixture 30 0))
     = Some (storedExam stub_env ''s1'' (exam_fixture ''e1'' 1 (JArr [JNull]))) \<and>
   table_get se_id ''e1''
     (simulatorExams
        (updateExamScore stub_env
           (updateExamScore stub_env
              (saveExamSeries stub_env empty_database
                 (series_fixture [exam_fixture ''e1'' 1 (JArr [JNull])]) settings_fixture 30 0)
              ''e1'' (Finite 40) (Finite 900) 5)
           ''e1'' (Finite 85) (Finite 600) 9))
     = Some ((storedExam stub_env ''s1'' (exam_fixture ''e1'' 1 (JArr [JNull])))
               \<lparr>se_score := Some (Finite 85),
                 se_completedAt := Some (toISOString stub_env 9),
                 se_timeTaken := Some (Finite 600)\<rparr>)"
proof -
  let ?db = "saveExamSeries stub_env empty_database
        (series_fixture [exam_fixture ''e1'' 1 (JArr [JNull])]) settings_fixture 30 0"
  let ?row = "storedExam stub_env ''s1'' (exam_fixture ''e1'' 1 (JArr [JNull]))"
  have a: "table_get se_id ''e1'' (simulatorExams ?db) = Some ?row"
    by (simp add: saveExamSeries_def empty_database_def series_fixture_def exam_fixture_def
        table_put_def table_get_def storedExam_def)
  from updateExamScore_frame[OF a, of stub_env "Finite 40" "Finite 900" 5 "Finite 85" "Finite 600" 9]
  have "updateExamScore stub_env (updateExamScore stub_env ?db ''e1'' (Finite 40) (Finite 900) 5)
          ''e1'' (Finite 85) (Finite 600) 9
        = updateExamScore stub_env ?db ''e1'' (Finite 85) (Finite 600) 9"
    by simp
  moreover from updateExamScore_frame[OF a, of stub_env "Finite 85" "Finite 600" 9]
  have "table_get se_id ''e1''
       (simulatorExams (updateExamScore stub_env ?db ''e1'' (Finite 85) (Finite 600) 9))
     = Some (?row\<lparr>se_score := Some (Finite 85),
                  se_completedAt := Some (toISOString stub_env 9),
                  se_timeTaken := Some (Finite 600)\<rparr>)"
    by simp
  ultimately show ?thesis using a by simp
qed

text \<open>
  Claim C7. After \<open>deleteExamSeries\<close> the series is not listed by \<open>getAllExamSeries\<close>,
  cannot be loaded by its id, and no exam row carries its id as \<open>seriesId\<close>; the rows of
  the other series, and their exams, are the ones that were there.
\<close>

theorem deleteExamSeries_cascade:
  "seriesId \<notin> ss_id ` set (getAllExamSeries (deleteExamSeries db seriesId)) \<and>
   getExamSeries e (deleteExamSeries db seriesId) seriesId = None \<and>
   filter (\<lambda>x. se_seriesId x = seriesId) (simulatorExams (deleteExamSeries db seriesId)) = [] \<and>
   getAllExamSeries (deleteExamSeries db seriesId)
     = filter (\<lambda>x. ss_id x \<noteq> seriesId) (getAllExamSeries db) \<and>
   simulatorExams (deleteExamSeries db seriesId)
     = filter (\<lambda>x. se_seriesId x \<noteq> seriesId) (simulatorExams db)"
proof -
  have a: "getAllExamSeries (deleteExamSeries db seriesId)
     = filter (\<lambda>x. ss_id x \<noteq> seriesId) (getAllExamSeries db)"
    by (simp add: getAllExamSeries_def deleteExamSeries_def table_delete_def)
       (metis filter_sort rev_filter)
  have b: "table_get ss_id seriesId (examSeries (deleteExamSeries db seriesId)) = None"
    by (simp add: table_get_def deleteExamSeries_def table_delete_def find_None_iff)
  have c: "filter (\<lambda>x. se_seriesId x = seriesId) (simulatorExams (deleteExamSeries db seriesId)) = []"
    by (simp add: deleteExamSeries_def filter_empty_conv)
  show ?thesis
    using a b c by (auto simp: getExamSeries_def) (simp add: deleteExamSeries_def)
qed

theorem deleteExamSeries_cascade_witness:
  "ss_id ` set (getAllExamSeries
      (saveExamSeries stub_env empty_database
         (series_fixture [exam_fixture ''e1'' 1 (JArr [JNull])]) settings_fixture 30 0)) = {''s1''} \<and>
   ''s1'' \<notin> ss_id ` set (getAllExamSeries
      (deleteExamSeries
         (saveExamSeries stub_env empty_database
            (series_fixture [exam_fixture ''e1'' 1 (JArr [JNull])]) settings_fixture 30 0) ''s1'')) \<and>
   simulatorExams
      (deleteExamSeries
         (saveExamSeries stub_env empty_database
            (series_fixture [exam_fixture ''e1'' 1 (JArr [JNull])]) settings_fixture 30 0) ''s1'') = []"
proof -
  let ?db = "saveExamSeries stub_env empty_database
         (series_fixture [exam_fixture ''e1'' 1 (JArr [JNull])]) settings_fixture 30 0"
  have a: "ss_id ` set (getAllExamSeries ?db) = {''s1''}"
    by (simp add: getAllExamSeries_def saveExamSeries_def empty_database_def series_fixture_def
        table_put_def)
  have b: "filter (\<lambda>x. se_seriesId x \<noteq> ''s1'') (simulatorExams ?db) = []"
    by (simp add: saveExamSeries_def empty_database_def series_fixture_def table_put_def
        storedExam_def)
  from deleteExamSeries_cascade[of "''s1''" ?db stub_env] a b show ?thesis by auto
qed

subsection \<open>The learning road\<close>

















end
